theory Spec2Isabelle
  imports Main
begin

section \<open>The opaque frame view of shell/browser/ui/views\<close>

text \<open>
  A shallow embedding of \<^verbatim>\<open>OpaqueFrameView\<close> (opaque_frame_view.cc and its header).
  The view's data members form a record that every member function takes and, where it
  mutates, returns. Whatever a member function asks of its collaborators (the widget
  \<^verbatim>\<open>frame()\<close>, the native window \<^verbatim>\<open>window()\<close>, the base class \<^verbatim>\<open>FramelessView\<close>,
  the \<^verbatim>\<open>gfx\<close> and \<^verbatim>\<open>views\<close> libraries) is read from a record \<open>env\<close> passed
  at each call, since none of that code is part of the two source files. Calls that only
  have an effect on a collaborator are appended to a trace kept in the view record.
  Dereferencing a null \<^verbatim>\<open>raw_ptr\<close> is an error value.

  The C++ type \<^verbatim>\<open>int\<close> is modelled by \<open>int\<close>. In \<open>NonClientTopHeight\<close>, whose
  sums run over the font's line height, the 32-bit wrap-around of each addition is
  written out (\<open>int32\<close>): C++ leaves signed overflow undefined, and two's complement
  wrapping is what the machine does. The other sums are over small constants and view
  sizes and are stated as the source's own expressions.

  \<^verbatim>\<open>GetBoundsForClientView\<close> and \<^verbatim>\<open>GetWindowBoundsForClientBounds\<close> change no
  member and are not used by the functions below; they are left out.
\<close>

subsection \<open>Geometry values\<close>

text \<open>Modelled from the spec: \<^verbatim>\<open>gfx::Insets\<close> is declared outside the source files; it is
  four integers, \<^verbatim>\<open>gfx::Insets()\<close> is zero on every side, \<^verbatim>\<open>gfx::Insets(n)\<close> is uniform,
  \<^verbatim>\<open>TLBR\<close> lists top, left, bottom, right, and \<^verbatim>\<open>width()\<close> is the horizontal total.\<close>

record insets =
  insets_top :: int
  insets_left :: int
  insets_bottom :: int
  insets_right :: int

definition Insets_TLBR :: "int \<Rightarrow> int \<Rightarrow> int \<Rightarrow> int \<Rightarrow> insets" where
  "Insets_TLBR t l b r =
     \<lparr>insets_top = t, insets_left = l, insets_bottom = b, insets_right = r\<rparr>"

definition Insets_all :: "int \<Rightarrow> insets" where
  "Insets_all n = Insets_TLBR n n n n"

definition Insets_zero :: insets where
  "Insets_zero = Insets_TLBR 0 0 0 0"

definition insets_width :: "insets \<Rightarrow> int" where
  "insets_width i = insets_left i + insets_right i"

text \<open>Modelled from the spec: \<^verbatim>\<open>gfx::Rect\<close> and \<^verbatim>\<open>gfx::Point\<close> are declared outside the
  source files; a rectangle is an origin with a width and a height.\<close>

record rect =
  rect_x :: int
  rect_y :: int
  rect_width :: int
  rect_height :: int

record point =
  point_x :: int
  point_y :: int

definition Rect :: "int \<Rightarrow> int \<Rightarrow> int \<Rightarrow> int \<Rightarrow> rect" where
  "Rect x y w h = \<lparr>rect_x = x, rect_y = y, rect_width = w, rect_height = h\<rparr>"

subsection \<open>Buttons and the placeholder container\<close>

datatype ButtonState =
  STATE_NORMAL | STATE_HOVERED | STATE_PRESSED | STATE_DISABLED | STATE_COUNT

datatype NavButtonProviderState = kNormal | kHovered | kPressed | kDisabled

datatype ViewID =
  VIEW_ID_NONE | VIEW_ID_MINIMIZE_BUTTON | VIEW_ID_MAXIMIZE_BUTTON
  | VIEW_ID_RESTORE_BUTTON | VIEW_ID_CLOSE_BUTTON

datatype AccName =
  IDS_NONE | IDS_ACCNAME_MINIMIZE | IDS_ACCNAME_MAXIMIZE | IDS_ACCNAME_RESTORE
  | IDS_ACCNAME_CLOSE

datatype ClosedReason = kCloseButtonClicked

datatype PressedCallback =
  NoCallback | Widget_Minimize | Widget_Maximize | Widget_Restore
  | Widget_CloseWithReason ClosedReason

datatype FocusBehavior = NEVER | ALWAYS | ACCESSIBLE_ONLY

datatype FrameButton = kMinimize | kMaximize | kClose

text \<open>The part of a \<^verbatim>\<open>views::ImageButton\<close> that the frame view sets or reads. The
  field \<open>image_model\<close> lists the \<^verbatim>\<open>SetImageModel\<close> calls made on the button: the
  button state and the provider state whose image was installed for it.\<close>

record button =
  view_id :: ViewID
  accessible_name :: AccName
  callback :: PressedCallback
  focus_behavior :: FocusBehavior
  visible :: bool
  bounds :: rect
  state :: ButtonState
  image_model :: "(ButtonState \<times> NavButtonProviderState) list"

text \<open>The part of the \<^verbatim>\<open>CaptionButtonPlaceholderContainer\<close> that the frame view
  sets or reads: its bounds and its background colour.\<close>

record placeholder =
  container_bounds :: rect
  background :: "nat option"

subsection \<open>Collaborators\<close>

text \<open>What the member functions read from outside the class at the moment of a call.
  Each field is named after the source expression it stands for.\<close>

record env =
  ShouldCustomDrawSystemTitlebar :: bool
  frame_IsMaximized :: bool
  frame_IsFullscreen :: bool
  IsMaximized :: bool
  IsWindowControlsOverlayEnabled :: bool
  titlebar_overlay_height :: int
  overlay_button_color :: nat
  view_width :: int
  FontList_GetHeight :: int
  FrameEdgeInsets :: "bool \<Rightarrow> insets"
  DefaultCaptionButtonY :: "bool \<Rightarrow> int"
  kCaptionButtonHeight :: int
  GetMirroredBounds :: "rect \<Rightarrow> rect"
  GetMirroredRect :: "rect \<Rightarrow> rect"
  Contains :: "rect \<Rightarrow> point \<Rightarrow> bool"
  View_SetBounds :: "int \<Rightarrow> int \<Rightarrow> int \<Rightarrow> int \<Rightarrow> rect"
  new_ImageButton :: button
  new_CaptionButtonPlaceholderContainer :: placeholder
  provider_leading_buttons :: "FrameButton list"
  provider_trailing_buttons :: "FrameButton list"
  FramelessView_NonClientHitTest :: "point \<Rightarrow> int"
  HTCLOSE :: int
  HTMAXBUTTON :: int
  HTMINBUTTON :: int
  HTCAPTION :: int

text \<open>Calls whose only effect is on a collaborator, in the order they are made.\<close>

datatype call =
  FramelessView_Init
  | AddChildView_placeholder
  | RegisterPaintAsActiveChangedCallback
  | AddChildView ViewID
  | NonClientFrameView_ResetWindowControls
  | LayoutSuperclass_FramelessView
  | SetWindowControlsOverlayRect rect
  | NotifyLayoutWindowControlsOverlay
  | FramelessView_PaintAsActiveChanged
  | FramelessView_OnThemeChanged

datatype error = NullDereference | NotReached

subsection \<open>The view\<close>

text \<open>The data members of the header, a \<^verbatim>\<open>raw_ptr\<close> being \<open>None\<close> when null, and the
  trace of calls made so far.\<close>

record opaque_frame_view =
  minimize_button :: "button option"
  maximize_button :: "button option"
  restore_button :: "button option"
  close_button :: "button option"
  leading_buttons :: "FrameButton list"
  trailing_buttons :: "FrameButton list"
  placed_leading_button :: bool
  placed_trailing_button :: bool
  available_space_leading_x :: int
  available_space_trailing_x :: int
  minimum_size_for_buttons :: int
  caption_button_placeholder_container :: "placeholder option"
  calls :: "call list"

text \<open>The constructor: the default member initialisers of the header; a \<^verbatim>\<open>raw_ptr\<close>
  without an initialiser is null.\<close>

definition OpaqueFrameView :: opaque_frame_view where
  "OpaqueFrameView =
     \<lparr>minimize_button = None, maximize_button = None, restore_button = None,
      close_button = None, leading_buttons = [],
      trailing_buttons = [kMinimize, kMaximize, kClose],
      placed_leading_button = False, placed_trailing_button = False,
      available_space_leading_x = 0, available_space_trailing_x = 0,
      minimum_size_for_buttons = 0,
      caption_button_placeholder_container = None, calls = []\<rparr>"

subsection \<open>Constants\<close>

definition kFrameBorderThickness :: int where "kFrameBorderThickness = 4"
definition kNonClientExtraTopThickness :: int where "kNonClientExtraTopThickness = 1"
definition kContentEdgeShadowThickness :: int where "kContentEdgeShadowThickness = 2"
definition kTopFrameEdgeThickness :: int where "kTopFrameEdgeThickness = 2"
definition kSideFrameEdgeThickness :: int where "kSideFrameEdgeThickness = 1"
definition kCaptionButtonBottomPadding :: int where "kCaptionButtonBottomPadding = 3"

subsection \<open>Geometry model\<close>

definition IsFrameCondensed :: "env \<Rightarrow> bool" where
  "IsFrameCondensed e = (frame_IsMaximized e \<or> frame_IsFullscreen e)"

definition RestoredFrameBorderInsets :: insets where
  "RestoredFrameBorderInsets = Insets_all kFrameBorderThickness"

definition RestoredFrameEdgeInsets :: insets where
  "RestoredFrameEdgeInsets =
     Insets_TLBR kTopFrameEdgeThickness kSideFrameEdgeThickness
       kSideFrameEdgeThickness kSideFrameEdgeThickness"

definition NonClientExtraTopThickness :: int where
  "NonClientExtraTopThickness = kNonClientExtraTopThickness"

definition GetIconSize :: "env \<Rightarrow> int" where
  "GetIconSize e = (let kIconMinimumSize = 16 in max (FontList_GetHeight e) kIconMinimumSize)"

text \<open>The value of a sum as a 32-bit two's complement \<^verbatim>\<open>int\<close>.\<close>

definition int32 :: "int \<Rightarrow> int" where
  "int32 x = (x + 2147483648) mod 4294967296 - 2147483648"

definition NonClientTopHeight :: "env \<Rightarrow> bool \<Rightarrow> int" where
  "NonClientTopHeight e restored =
     (let kVerticalPadding = 2;
          icon_height = int32 (int32 (insets_top (FrameEdgeInsets e restored) + GetIconSize e)
                               + kVerticalPadding);
          caption_button_height = int32 (int32 (DefaultCaptionButtonY e restored
                                                + kCaptionButtonHeight e)
                                         + kCaptionButtonBottomPadding)
      in int32 (max icon_height caption_button_height + kContentEdgeShadowThickness))"

text \<open>The sums of \<open>NonClientTopHeight\<close> taken in the integers, and the condition that each
  of them is a value of \<^verbatim>\<open>int\<close>, so that no addition overflows.\<close>

definition in_int :: "int \<Rightarrow> bool" where
  "in_int x = (- 2147483648 \<le> x \<and> x \<le> 2147483647)"

definition NonClientTopHeight_no_overflow :: "env \<Rightarrow> bool \<Rightarrow> bool" where
  "NonClientTopHeight_no_overflow e restored =
     (let icon_row = insets_top (FrameEdgeInsets e restored) + GetIconSize e;
          caption_row = DefaultCaptionButtonY e restored + kCaptionButtonHeight e
      in in_int icon_row \<and> in_int (icon_row + 2)
         \<and> in_int caption_row \<and> in_int (caption_row + kCaptionButtonBottomPadding)
         \<and> in_int (max (icon_row + 2) (caption_row + kCaptionButtonBottomPadding)
                     + kContentEdgeShadowThickness))"

definition FrameBorderInsets :: "env \<Rightarrow> bool \<Rightarrow> insets" where
  "FrameBorderInsets e restored =
     (if \<not> restored \<and> IsFrameCondensed e then Insets_zero else RestoredFrameBorderInsets)"

definition FrameTopBorderThickness :: "env \<Rightarrow> bool \<Rightarrow> int" where
  "FrameTopBorderThickness e restored =
     (let thickness = insets_top (FrameBorderInsets e restored)
      in if (restored \<or> \<not> IsFrameCondensed e) \<and> thickness > 0
         then thickness + NonClientExtraTopThickness
         else thickness)"

subsection \<open>Button registry\<close>

text \<open>\<^verbatim>\<open>NOTREACHED()\<close> is an error value.\<close>

definition ButtonStateToNavButtonProviderState ::
  "ButtonState \<Rightarrow> error + NavButtonProviderState" where
  "ButtonStateToNavButtonProviderState st =
     (case st of
        STATE_NORMAL \<Rightarrow> Inr kNormal
      | STATE_HOVERED \<Rightarrow> Inr kHovered
      | STATE_PRESSED \<Rightarrow> Inr kPressed
      | STATE_DISABLED \<Rightarrow> Inr kDisabled
      | STATE_COUNT \<Rightarrow> Inl NotReached)"

text \<open>The loop of \<^verbatim>\<open>CreateImageButton\<close> over the states below \<^verbatim>\<open>STATE_COUNT\<close>. Of
  each image only the provider state it was asked for is kept.\<close>

fun SetImageModels :: "ButtonState list \<Rightarrow> button \<Rightarrow> error + button" where
  "SetImageModels [] b = Inr b"
| "SetImageModels (st # sts) b =
     (case ButtonStateToNavButtonProviderState st of
        Inl err \<Rightarrow> Inl err
      | Inr ns \<Rightarrow> SetImageModels sts (b\<lparr>image_model := image_model b @ [(st, ns)]\<rparr>))"

definition CreateImageButton ::
  "env \<Rightarrow> ViewID \<Rightarrow> AccName \<Rightarrow> PressedCallback \<Rightarrow> opaque_frame_view
   \<Rightarrow> error + (button \<times> opaque_frame_view)" where
  "CreateImageButton e vid accessibility_string_id cb s =
     (case SetImageModels [STATE_NORMAL, STATE_HOVERED, STATE_PRESSED, STATE_DISABLED]
             (new_ImageButton e) of
        Inl err \<Rightarrow> Inl err
      | Inr b \<Rightarrow>
          Inr (b\<lparr>focus_behavior := ACCESSIBLE_ONLY, callback := cb,
                  accessible_name := accessibility_string_id, view_id := vid\<rparr>,
               s\<lparr>calls := calls s @ [AddChildView vid]\<rparr>))"

definition InitButtons :: "env \<Rightarrow> opaque_frame_view \<Rightarrow> error + opaque_frame_view" where
  "InitButtons e s =
     (case CreateImageButton e VIEW_ID_MINIMIZE_BUTTON IDS_ACCNAME_MINIMIZE
             Widget_Minimize s of
        Inl err \<Rightarrow> Inl err
      | Inr (b1, s1) \<Rightarrow>
     (case CreateImageButton e VIEW_ID_MAXIMIZE_BUTTON IDS_ACCNAME_MAXIMIZE
             Widget_Maximize (s1\<lparr>minimize_button := Some b1\<rparr>) of
        Inl err \<Rightarrow> Inl err
      | Inr (b2, s2) \<Rightarrow>
     (case CreateImageButton e VIEW_ID_RESTORE_BUTTON IDS_ACCNAME_RESTORE
             Widget_Restore (s2\<lparr>maximize_button := Some b2\<rparr>) of
        Inl err \<Rightarrow> Inl err
      | Inr (b3, s3) \<Rightarrow>
     (case CreateImageButton e VIEW_ID_CLOSE_BUTTON IDS_ACCNAME_CLOSE
             (Widget_CloseWithReason kCloseButtonClicked)
             (s3\<lparr>restore_button := Some b3\<rparr>) of
        Inl err \<Rightarrow> Inl err
      | Inr (b4, s4) \<Rightarrow> Inr (s4\<lparr>close_button := Some b4\<rparr>)))))"

definition Init :: "env \<Rightarrow> opaque_frame_view \<Rightarrow> error + opaque_frame_view" where
  "Init e s =
     (let s = s\<lparr>calls := calls s @ [FramelessView_Init]\<rparr>
      in if ShouldCustomDrawSystemTitlebar e then Inr s
         else
           let s = s\<lparr>caption_button_placeholder_container :=
                        Some (new_CaptionButtonPlaceholderContainer e),
                      calls := calls s @ [AddChildView_placeholder]\<rparr>;
               s = s\<lparr>calls := calls s @ [RegisterPaintAsActiveChangedCallback]\<rparr>
           in InitButtons e s)"

definition OnWindowButtonOrderingChange ::
  "env \<Rightarrow> opaque_frame_view \<Rightarrow> opaque_frame_view" where
  "OnWindowButtonOrderingChange e s =
     s\<lparr>leading_buttons := provider_leading_buttons e,
       trailing_buttons := provider_trailing_buttons e\<rparr>"

subsection \<open>Hit-test resolver\<close>

definition HitTestCaptionButton :: "env \<Rightarrow> button option \<Rightarrow> point \<Rightarrow> bool" where
  "HitTestCaptionButton e b pt =
     (case b of
        None \<Rightarrow> False
      | Some btn \<Rightarrow> visible btn \<and> Contains e (GetMirroredBounds e (bounds btn)) pt)"

definition NonClientHitTest :: "env \<Rightarrow> opaque_frame_view \<Rightarrow> point \<Rightarrow> int" where
  "NonClientHitTest e s pt =
     (if ShouldCustomDrawSystemTitlebar e then
        if HitTestCaptionButton e (close_button s) pt then HTCLOSE e
        else if HitTestCaptionButton e (restore_button s) pt then HTMAXBUTTON e
        else if HitTestCaptionButton e (maximize_button s) pt then HTMAXBUTTON e
        else if HitTestCaptionButton e (minimize_button s) pt then HTMINBUTTON e
        else if IsWindowControlsOverlayEnabled e
                \<and> (case caption_button_placeholder_container s of
                      None \<Rightarrow> False
                    | Some c \<Rightarrow> Contains e (GetMirroredBounds e (container_bounds c)) pt)
             then HTCAPTION e
             else FramelessView_NonClientHitTest e pt
      else FramelessView_NonClientHitTest e pt)"

text \<open>The resolver as the specification words it: the four buttons in a fixed priority
  order, each with the region it stands for; the first candidate wins; after them the
  caption overlay, and last the base class.\<close>

definition caption_button_priority ::
  "env \<Rightarrow> opaque_frame_view \<Rightarrow> (button option \<times> int) list" where
  "caption_button_priority e s =
     [(close_button s, HTCLOSE e), (restore_button s, HTMAXBUTTON e),
      (maximize_button s, HTMAXBUTTON e), (minimize_button s, HTMINBUTTON e)]"

definition first_match_hit_test :: "env \<Rightarrow> opaque_frame_view \<Rightarrow> point \<Rightarrow> int" where
  "first_match_hit_test e s pt =
     (case find (\<lambda>(b, region). HitTestCaptionButton e b pt) (caption_button_priority e s) of
        Some (b, region) \<Rightarrow> region
      | None \<Rightarrow>
          (case caption_button_placeholder_container s of
             Some c \<Rightarrow>
               if IsWindowControlsOverlayEnabled e
                  \<and> Contains e (GetMirroredBounds e (container_bounds c)) pt
               then HTCAPTION e
               else FramelessView_NonClientHitTest e pt
           | None \<Rightarrow> FramelessView_NonClientHitTest e pt))"

subsection \<open>Resetting the controls\<close>

definition ResetWindowControls :: "opaque_frame_view \<Rightarrow> error + opaque_frame_view" where
  "ResetWindowControls s =
     (let s0 = s\<lparr>calls := calls s @ [NonClientFrameView_ResetWindowControls]\<rparr>
      in (case restore_button s0 of
            None \<Rightarrow> Inl NullDereference
          | Some r \<Rightarrow>
              (let s1 = s0\<lparr>restore_button := Some (r\<lparr>state := STATE_NORMAL\<rparr>)\<rparr>
               in (case minimize_button s1 of
                     None \<Rightarrow> Inl NullDereference
                   | Some m \<Rightarrow>
                       (let s2 = s1\<lparr>minimize_button := Some (m\<lparr>state := STATE_NORMAL\<rparr>)\<rparr>
                        in (case maximize_button s2 of
                              None \<Rightarrow> Inl NullDereference
                            | Some x \<Rightarrow>
                                Inr (s2\<lparr>maximize_button :=
                                          Some (x\<lparr>state := STATE_NORMAL\<rparr>)\<rparr>)))))))"

subsection \<open>Layout engine\<close>

definition Layout :: "env \<Rightarrow> opaque_frame_view \<Rightarrow> error + opaque_frame_view" where
  "Layout e s =
     (if ShouldCustomDrawSystemTitlebar e then
        let height = NonClientTopHeight e False;
            container_x = (if placed_trailing_button s then available_space_trailing_x s
                           else 0);
            insets = FrameBorderInsets e False
        in case caption_button_placeholder_container s of
             None \<Rightarrow> Inl NullDereference
           | Some c \<Rightarrow>
               Inr (s\<lparr>caption_button_placeholder_container :=
                         Some (c\<lparr>container_bounds :=
                                   View_SetBounds e container_x (insets_top insets)
                                     (minimum_size_for_buttons s - insets_width insets)
                                     (height - insets_top insets)\<rparr>),
                       calls := calls s @ [LayoutSuperclass_FramelessView]\<rparr>)
      else Inr (s\<lparr>calls := calls s @ [LayoutSuperclass_FramelessView]\<rparr>))"

subsection \<open>Controls-overlay reporter\<close>

definition LayoutWindowControlsOverlay ::
  "env \<Rightarrow> opaque_frame_view \<Rightarrow> error + opaque_frame_view" where
  "LayoutWindowControlsOverlay e s =
     (let overlay_height = titlebar_overlay_height e
      in case (if overlay_height = 0 then
                 (case caption_button_placeholder_container s of
                    None \<Rightarrow> Inl NullDereference
                  | Some c \<Rightarrow>
                      Inr (if IsMaximized e then rect_height (container_bounds c)
                           else rect_height (container_bounds c) + 1))
               else Inr overlay_height) of
           Inl err \<Rightarrow> Inl err
         | Inr overlay_height \<Rightarrow>
             (case caption_button_placeholder_container s of
                None \<Rightarrow> Inl NullDereference
              | Some c \<Rightarrow>
                  let overlay_width = rect_width (container_bounds c);
                      bounding_rect_width = view_width e - overlay_width;
                      bounding_rect =
                        GetMirroredRect e (Rect 0 0 bounding_rect_width overlay_height)
                  in Inr (s\<lparr>calls := calls s @
                              [SetWindowControlsOverlayRect bounding_rect,
                               NotifyLayoutWindowControlsOverlay]\<rparr>)))"

definition UpdateCaptionButtonPlaceholderContainerBackground ::
  "env \<Rightarrow> opaque_frame_view \<Rightarrow> opaque_frame_view" where
  "UpdateCaptionButtonPlaceholderContainerBackground e s =
     (case caption_button_placeholder_container s of
        None \<Rightarrow> s
      | Some c \<Rightarrow>
          let bg_color = overlay_button_color e
          in s\<lparr>caption_button_placeholder_container :=
                 Some (c\<lparr>background := Some bg_color\<rparr>)\<rparr>)"

definition PaintAsActiveChanged :: "env \<Rightarrow> opaque_frame_view \<Rightarrow> opaque_frame_view" where
  "PaintAsActiveChanged e s =
     (let s = UpdateCaptionButtonPlaceholderContainerBackground e s
      in s\<lparr>calls := calls s @ [FramelessView_PaintAsActiveChanged]\<rparr>)"

definition OnThemeChanged :: "env \<Rightarrow> opaque_frame_view \<Rightarrow> opaque_frame_view" where
  "OnThemeChanged e s =
     (let s = UpdateCaptionButtonPlaceholderContainerBackground e s
      in s\<lparr>calls := calls s @ [FramelessView_OnThemeChanged]\<rparr>)"

subsection \<open>Reachable views\<close>

text \<open>The views that a run can produce: the constructor's view, then any sequence of
  member functions that return, each in whatever environment holds at its call, and of
  changes the toolkit makes to the child views themselves (a button hovered, hidden or
  moved, the container resized).\<close>

inductive reachable :: "opaque_frame_view \<Rightarrow> bool" where
  r_ctor: "reachable OpaqueFrameView"
| r_Init: "reachable s \<Longrightarrow> Init e s = Inr s' \<Longrightarrow> reachable s'"
| r_InitButtons: "reachable s \<Longrightarrow> InitButtons e s = Inr s' \<Longrightarrow> reachable s'"
| r_Ordering: "reachable s \<Longrightarrow> reachable (OnWindowButtonOrderingChange e s)"
| r_Reset: "reachable s \<Longrightarrow> ResetWindowControls s = Inr s' \<Longrightarrow> reachable s'"
| r_Layout: "reachable s \<Longrightarrow> Layout e s = Inr s' \<Longrightarrow> reachable s'"
| r_Overlay: "reachable s \<Longrightarrow> LayoutWindowControlsOverlay e s = Inr s' \<Longrightarrow> reachable s'"
| r_Background:
    "reachable s \<Longrightarrow> reachable (UpdateCaptionButtonPlaceholderContainerBackground e s)"
| r_Paint: "reachable s \<Longrightarrow> reachable (PaintAsActiveChanged e s)"
| r_Theme: "reachable s \<Longrightarrow> reachable (OnThemeChanged e s)"
| r_toolkit:
    "reachable s \<Longrightarrow>
     reachable (s\<lparr>minimize_button := map_option f1 (minimize_button s),
                  maximize_button := map_option f2 (maximize_button s),
                  restore_button := map_option f3 (restore_button s),
                  close_button := map_option f4 (close_button s),
                  caption_button_placeholder_container :=
                    map_option g (caption_button_placeholder_container s)\<rparr>)"

subsection \<open>A sample environment and sample views\<close>

text \<open>A left-to-right, restored window 800 wide whose title bar the system draws. The
  library functions are given their usual meaning: a rectangle contains the points from
  its origin up to, not including, its right and bottom edges; nothing is mirrored;
  \<^verbatim>\<open>SetBounds\<close> stores a size that is not negative.\<close>

definition ltr_env :: env where
  "ltr_env =
     \<lparr>ShouldCustomDrawSystemTitlebar = False,
      frame_IsMaximized = False, frame_IsFullscreen = False, IsMaximized = False,
      IsWindowControlsOverlayEnabled = True,
      titlebar_overlay_height = 0, overlay_button_color = 0,
      view_width = 800, FontList_GetHeight = 14,
      FrameEdgeInsets = (\<lambda>restored. Insets_TLBR 2 1 1 1),
      DefaultCaptionButtonY = (\<lambda>restored. 1),
      kCaptionButtonHeight = 18,
      GetMirroredBounds = (\<lambda>r. r), GetMirroredRect = (\<lambda>r. r),
      Contains = (\<lambda>r p. rect_x r \<le> point_x p \<and> point_x p < rect_x r + rect_width r
                        \<and> rect_y r \<le> point_y p \<and> point_y p < rect_y r + rect_height r),
      View_SetBounds = (\<lambda>x y w h. Rect x y (max 0 w) (max 0 h)),
      new_ImageButton =
        \<lparr>view_id = VIEW_ID_NONE, accessible_name = IDS_NONE, callback = NoCallback,
         focus_behavior = ALWAYS, visible = True, bounds = Rect 0 0 0 0,
         state = STATE_NORMAL, image_model = []\<rparr>,
      new_CaptionButtonPlaceholderContainer =
        \<lparr>container_bounds = Rect 0 0 0 0, background = None\<rparr>,
      provider_leading_buttons = [], provider_trailing_buttons = [kMinimize, kMaximize, kClose],
      FramelessView_NonClientHitTest = (\<lambda>p. 1),
      HTCLOSE = 20, HTMAXBUTTON = 9, HTMINBUTTON = 8, HTCAPTION = 2\<rparr>"

definition custom_env :: env where
  "custom_env = ltr_env\<lparr>ShouldCustomDrawSystemTitlebar := True\<rparr>"


definition sample_button :: "ViewID \<Rightarrow> rect \<Rightarrow> ButtonState \<Rightarrow> button" where
  "sample_button vid r st =
     \<lparr>view_id = vid, accessible_name = IDS_NONE, callback = NoCallback,
      focus_behavior = ACCESSIBLE_ONLY, visible = True, bounds = r, state = st,
      image_model = []\<rparr>"

text \<open>Four hovered buttons whose rectangles overlap, and a 138 by 30 container.\<close>

definition hovered_view :: opaque_frame_view where
  "hovered_view =
     OpaqueFrameView
       \<lparr>minimize_button := Some (sample_button VIEW_ID_MINIMIZE_BUTTON (Rect 700 0 60 30) STATE_HOVERED),
        maximize_button := Some (sample_button VIEW_ID_MAXIMIZE_BUTTON (Rect 720 0 60 30) STATE_HOVERED),
        restore_button := Some ((sample_button VIEW_ID_RESTORE_BUTTON (Rect 720 0 60 30) STATE_HOVERED)
                                  \<lparr>visible := False\<rparr>),
        close_button := Some (sample_button VIEW_ID_CLOSE_BUTTON (Rect 740 0 60 30) STATE_HOVERED),
        caption_button_placeholder_container :=
          Some \<lparr>container_bounds = Rect 662 0 138 30, background = None\<rparr>\<rparr>"

text \<open>The five layout-cursor members, together.\<close>

definition layout_cursor :: "opaque_frame_view \<Rightarrow> bool \<times> bool \<times> int \<times> int \<times> int" where
  "layout_cursor s =
     (placed_leading_button s, placed_trailing_button s, available_space_leading_x s,
      available_space_trailing_x s, minimum_size_for_buttons s)"

section \<open>Properties\<close>

subsection \<open>The samples\<close>

lemma hovered_view_buttons:
  "close_button hovered_view
     = Some (sample_button VIEW_ID_CLOSE_BUTTON (Rect 740 0 60 30) STATE_HOVERED)"
  "restore_button hovered_view
     = Some ((sample_button VIEW_ID_RESTORE_BUTTON (Rect 720 0 60 30) STATE_HOVERED)
               \<lparr>visible := False\<rparr>)"
  "maximize_button hovered_view
     = Some (sample_button VIEW_ID_MAXIMIZE_BUTTON (Rect 720 0 60 30) STATE_HOVERED)"
  "minimize_button hovered_view
     = Some (sample_button VIEW_ID_MINIMIZE_BUTTON (Rect 700 0 60 30) STATE_HOVERED)"
  "caption_button_placeholder_container hovered_view
     = Some \<lparr>container_bounds = Rect 662 0 138 30, background = None\<rparr>"
  by (simp_all add: hovered_view_def)

lemma custom_env_fields:
  "ShouldCustomDrawSystemTitlebar custom_env"
  "IsWindowControlsOverlayEnabled custom_env"
  "GetMirroredBounds custom_env r = r"
  "Contains custom_env r p
     \<longleftrightarrow> rect_x r \<le> point_x p \<and> point_x p < rect_x r + rect_width r
         \<and> rect_y r \<le> point_y p \<and> point_y p < rect_y r + rect_height r"
  "HTCLOSE custom_env = 20" "HTMAXBUTTON custom_env = 9" "HTMINBUTTON custom_env = 8"
  "HTCAPTION custom_env = 2" "FramelessView_NonClientHitTest custom_env p = 1"
  by (simp_all add: custom_env_def ltr_env_def)


subsection \<open>Border insets\<close>

lemma RestoredFrameBorderInsets_eq:
  "RestoredFrameBorderInsets = Insets_TLBR 4 4 4 4"
  by (simp add: RestoredFrameBorderInsets_def Insets_all_def kFrameBorderThickness_def)

lemma RestoredFrameBorderInsets_nonzero:
  "RestoredFrameBorderInsets \<noteq> Insets_zero"
  by (simp add: RestoredFrameBorderInsets_eq Insets_zero_def Insets_TLBR_def)

text \<open>
  C5. \<open>FrameBorderInsets\<close> with \<open>restored\<close> set is the restored border, 4 on each of
  the four sides, whatever the widget reports about its mode; with \<open>restored\<close> unset it
  is the zero insets exactly when the widget is maximized or fullscreen.
\<close>

theorem FrameBorderInsets_modes:
  "FrameBorderInsets e True = Insets_TLBR 4 4 4 4
   \<and> FrameBorderInsets e True = Insets_all kFrameBorderThickness
   \<and> (FrameBorderInsets e False = Insets_zero
        \<longleftrightarrow> frame_IsMaximized e \<or> frame_IsFullscreen e)"
  using RestoredFrameBorderInsets_nonzero
  by (simp add: FrameBorderInsets_def IsFrameCondensed_def RestoredFrameBorderInsets_eq
      Insets_all_def kFrameBorderThickness_def)


theorem FrameBorderInsets_modes_witness:
  "FrameBorderInsets ltr_env True = Insets_TLBR 4 4 4 4
   \<and> FrameBorderInsets (ltr_env\<lparr>frame_IsFullscreen := True\<rparr>) True = Insets_TLBR 4 4 4 4
   \<and> FrameBorderInsets ltr_env False \<noteq> Insets_zero
   \<and> FrameBorderInsets (ltr_env\<lparr>frame_IsMaximized := True\<rparr>) False = Insets_zero
   \<and> FrameBorderInsets (ltr_env\<lparr>frame_IsFullscreen := True\<rparr>) False = Insets_zero"
  using FrameBorderInsets_modes [of ltr_env]
    FrameBorderInsets_modes [of "ltr_env\<lparr>frame_IsMaximized := True\<rparr>"]
    FrameBorderInsets_modes [of "ltr_env\<lparr>frame_IsFullscreen := True\<rparr>"]
  by (simp add: ltr_env_def)

subsection \<open>Top border thickness\<close>

text \<open>
  C9. \<open>FrameTopBorderThickness\<close> is the top inset of \<open>FrameBorderInsets\<close>, plus
  \<open>kNonClientExtraTopThickness\<close>, which is 1, exactly when the frame is effectively
  restored (the flag is set or the frame is not condensed) and that top inset is not
  zero. So it is 0 for a condensed frame asked without the flag, and 5 with the flag.
\<close>

theorem FrameTopBorderThickness_eq:
  "FrameTopBorderThickness e restored =
     insets_top (FrameBorderInsets e restored)
     + (if (restored \<or> \<not> IsFrameCondensed e)
           \<and> insets_top (FrameBorderInsets e restored) \<noteq> 0
        then kNonClientExtraTopThickness else 0)
   \<and> kNonClientExtraTopThickness = 1
   \<and> (\<not> restored \<and> IsFrameCondensed e \<longrightarrow> FrameTopBorderThickness e restored = 0)
   \<and> (restored \<longrightarrow> FrameTopBorderThickness e restored = 5)"
  by (simp add: FrameTopBorderThickness_def FrameBorderInsets_def Let_def
      RestoredFrameBorderInsets_eq Insets_zero_def Insets_TLBR_def
      NonClientExtraTopThickness_def kNonClientExtraTopThickness_def)

theorem FrameTopBorderThickness_eq_witness:
  "IsFrameCondensed (ltr_env\<lparr>frame_IsMaximized := True\<rparr>)
   \<and> FrameTopBorderThickness (ltr_env\<lparr>frame_IsMaximized := True\<rparr>) False = 0
   \<and> FrameTopBorderThickness (ltr_env\<lparr>frame_IsMaximized := True\<rparr>) True = 5
   \<and> FrameTopBorderThickness ltr_env False = 5"
  using FrameTopBorderThickness_eq [of "ltr_env\<lparr>frame_IsMaximized := True\<rparr>" False]
    FrameTopBorderThickness_eq [of "ltr_env\<lparr>frame_IsMaximized := True\<rparr>" True]
    FrameTopBorderThickness_eq [of ltr_env False]
  by (simp add: IsFrameCondensed_def ltr_env_def FrameBorderInsets_def
      RestoredFrameBorderInsets_eq Insets_TLBR_def)

subsection \<open>Height of the non-client top area\<close>

lemma int32_id: "in_int x \<Longrightarrow> int32 x = x"
  by (simp add: in_int_def int32_def)

lemma NonClientTopHeight_exact:
  assumes "NonClientTopHeight_no_overflow e restored"
  shows "NonClientTopHeight e restored =
           max (insets_top (FrameEdgeInsets e restored) + GetIconSize e + 2)
               (DefaultCaptionButtonY e restored + kCaptionButtonHeight e
                + kCaptionButtonBottomPadding)
           + kContentEdgeShadowThickness"
  using assms
  by (simp add: NonClientTopHeight_def NonClientTopHeight_no_overflow_def Let_def int32_id)

text \<open>
  C10. As long as none of its sums overflows, \<open>NonClientTopHeight\<close> does not decrease
  when the icon height, which is the larger of the font's line height and 16, or the
  caption button height grows while the other inputs stay as they are; and two calls
  that see the same inputs return the same value.
\<close>

theorem NonClientTopHeight_mono:
  assumes "insets_top (FrameEdgeInsets e' restored) = insets_top (FrameEdgeInsets e restored)"
    and "DefaultCaptionButtonY e' restored = DefaultCaptionButtonY e restored"
    and "GetIconSize e \<le> GetIconSize e'"
    and "kCaptionButtonHeight e \<le> kCaptionButtonHeight e'"
    and "NonClientTopHeight_no_overflow e restored"
    and "NonClientTopHeight_no_overflow e' restored"
  shows "NonClientTopHeight e restored \<le> NonClientTopHeight e' restored
         \<and> (GetIconSize e = GetIconSize e' \<and> kCaptionButtonHeight e = kCaptionButtonHeight e'
              \<longrightarrow> NonClientTopHeight e restored = NonClientTopHeight e' restored)
         \<and> GetIconSize e = max (FontList_GetHeight e) 16"
proof -
  have m: "NonClientTopHeight e restored \<le> NonClientTopHeight e' restored"
    using assms(1-4)
    unfolding NonClientTopHeight_exact [OF assms(5)] NonClientTopHeight_exact [OF assms(6)]
    by (auto simp: max_def)
  have q: "GetIconSize e = GetIconSize e' \<and> kCaptionButtonHeight e = kCaptionButtonHeight e'
             \<longrightarrow> NonClientTopHeight e restored = NonClientTopHeight e' restored"
    using assms(1,2) by (simp add: NonClientTopHeight_def Let_def)
  have i: "GetIconSize e = max (FontList_GetHeight e) 16"
    by (simp add: GetIconSize_def Let_def)
  from m q i show ?thesis by blast
qed

theorem NonClientTopHeight_mono_witness:
  "GetIconSize ltr_env = 16
   \<and> GetIconSize (ltr_env\<lparr>FontList_GetHeight := 30, kCaptionButtonHeight := 20\<rparr>) = 30
   \<and> NonClientTopHeight_no_overflow ltr_env False
   \<and> NonClientTopHeight_no_overflow
        (ltr_env\<lparr>FontList_GetHeight := 30, kCaptionButtonHeight := 20\<rparr>) False
   \<and> NonClientTopHeight ltr_env False = 24
   \<and> NonClientTopHeight (ltr_env\<lparr>FontList_GetHeight := 30, kCaptionButtonHeight := 20\<rparr>) False = 36
   \<and> NonClientTopHeight ltr_env False
       \<le> NonClientTopHeight (ltr_env\<lparr>FontList_GetHeight := 30, kCaptionButtonHeight := 20\<rparr>) False"
  using NonClientTopHeight_mono [of "ltr_env\<lparr>FontList_GetHeight := 30, kCaptionButtonHeight := 20\<rparr>"
      False ltr_env]
  by (simp add: NonClientTopHeight_def NonClientTopHeight_no_overflow_def in_int_def int32_def
      GetIconSize_def Let_def ltr_env_def Insets_TLBR_def
      kCaptionButtonBottomPadding_def kContentEdgeShadowThickness_def)

text \<open>
  Without the proviso the statement fails. With a font line height of 2147483647 the
  icon row overflows and wraps below the caption row, and the top height falls back to
  24, under the 36 it has at a line height of 30.
\<close>

theorem NonClientTopHeight_overflow:
  "GetIconSize (ltr_env\<lparr>FontList_GetHeight := 30\<rparr>) = 30
   \<and> GetIconSize (ltr_env\<lparr>FontList_GetHeight := 2147483647\<rparr>) = 2147483647
   \<and> NonClientTopHeight (ltr_env\<lparr>FontList_GetHeight := 30\<rparr>) False = 36
   \<and> NonClientTopHeight (ltr_env\<lparr>FontList_GetHeight := 2147483647\<rparr>) False = 24
   \<and> \<not> NonClientTopHeight (ltr_env\<lparr>FontList_GetHeight := 30\<rparr>) False
         \<le> NonClientTopHeight (ltr_env\<lparr>FontList_GetHeight := 2147483647\<rparr>) False"
  by (simp add: NonClientTopHeight_def int32_def GetIconSize_def Let_def ltr_env_def
      Insets_TLBR_def kCaptionButtonBottomPadding_def kContentEdgeShadowThickness_def)

subsection \<open>Resetting the controls\<close>

text \<open>
  C7. Whatever the visual states of the buttons were, \<open>ResetWindowControls\<close> returns
  with the minimize, maximize and restore buttons in the normal state and with the close
  button as it was.
\<close>

theorem ResetWindowControls_states:
  assumes "minimize_button s = Some mi"
    and "maximize_button s = Some ma"
    and "restore_button s = Some re"
  shows "\<exists>s'. ResetWindowControls s = Inr s'
           \<and> minimize_button s' = Some (mi\<lparr>state := STATE_NORMAL\<rparr>)
           \<and> maximize_button s' = Some (ma\<lparr>state := STATE_NORMAL\<rparr>)
           \<and> restore_button s' = Some (re\<lparr>state := STATE_NORMAL\<rparr>)
           \<and> close_button s' = close_button s"
  using assms by (simp add: ResetWindowControls_def Let_def)

theorem ResetWindowControls_states_witness:
  "map_option state (minimize_button hovered_view) = Some STATE_HOVERED
   \<and> map_option state (maximize_button hovered_view) = Some STATE_HOVERED
   \<and> map_option state (restore_button hovered_view) = Some STATE_HOVERED
   \<and> map_option state (close_button hovered_view) = Some STATE_HOVERED
   \<and> (\<exists>s'. ResetWindowControls hovered_view = Inr s'
          \<and> map_option state (minimize_button s') = Some STATE_NORMAL
          \<and> map_option state (maximize_button s') = Some STATE_NORMAL
          \<and> map_option state (restore_button s') = Some STATE_NORMAL
          \<and> map_option state (close_button s') = Some STATE_HOVERED)"
proof -
  from ResetWindowControls_states [OF hovered_view_buttons(4) hovered_view_buttons(3)
      hovered_view_buttons(2)]
  obtain s' where
    "ResetWindowControls hovered_view = Inr s'"
    "map_option state (minimize_button s') = Some STATE_NORMAL"
    "map_option state (maximize_button s') = Some STATE_NORMAL"
    "map_option state (restore_button s') = Some STATE_NORMAL"
    "close_button s' = close_button hovered_view"
    by auto
  then show ?thesis
    by (simp add: hovered_view_buttons sample_button_def)
qed

subsection \<open>The overlay rectangle\<close>



subsection \<open>Hit testing\<close>

text \<open>
  C4. With a custom-drawn title bar, \<open>NonClientHitTest\<close> returns the region of the
  first candidate in the order close, restore, maximize, minimize (restore and maximize
  both standing for the maximize region); with no candidate it returns the caption
  region when the window controls overlay is enabled and the placeholder container
  exists and its mirrored bounds contain the point, and the base class's answer
  otherwise. A button is a candidate exactly when it is not null, is visible, and its
  mirrored bounds contain the point.
\<close>

theorem NonClientHitTest_priority:
  assumes "ShouldCustomDrawSystemTitlebar e"
  shows "NonClientHitTest e s pt = first_match_hit_test e s pt
         \<and> (HitTestCaptionButton e b pt
              \<longleftrightarrow> (\<exists>btn. b = Some btn \<and> visible btn
                          \<and> Contains e (GetMirroredBounds e (bounds btn)) pt))"
proof
  show "NonClientHitTest e s pt = first_match_hit_test e s pt"
    using assms
    by (simp add: NonClientHitTest_def first_match_hit_test_def caption_button_priority_def
        split: option.splits)
next
  show "HitTestCaptionButton e b pt
          \<longleftrightarrow> (\<exists>btn. b = Some btn \<and> visible btn
                      \<and> Contains e (GetMirroredBounds e (bounds btn)) pt)"
    by (cases b) (simp_all add: HitTestCaptionButton_def)
qed

theorem NonClientHitTest_priority_witness:
  "ShouldCustomDrawSystemTitlebar custom_env
   \<and> NonClientHitTest custom_env hovered_view \<lparr>point_x = 750, point_y = 10\<rparr> = 20
   \<and> NonClientHitTest custom_env hovered_view \<lparr>point_x = 730, point_y = 10\<rparr> = 9
   \<and> NonClientHitTest custom_env hovered_view \<lparr>point_x = 705, point_y = 10\<rparr> = 8
   \<and> NonClientHitTest custom_env hovered_view \<lparr>point_x = 670, point_y = 10\<rparr> = 2
   \<and> NonClientHitTest custom_env hovered_view \<lparr>point_x = 10, point_y = 10\<rparr> = 1"
  using
    NonClientHitTest_priority [of custom_env hovered_view "\<lparr>point_x = 750, point_y = 10\<rparr>"]
    NonClientHitTest_priority [of custom_env hovered_view "\<lparr>point_x = 730, point_y = 10\<rparr>"]
    NonClientHitTest_priority [of custom_env hovered_view "\<lparr>point_x = 705, point_y = 10\<rparr>"]
    NonClientHitTest_priority [of custom_env hovered_view "\<lparr>point_x = 670, point_y = 10\<rparr>"]
    NonClientHitTest_priority [of custom_env hovered_view "\<lparr>point_x = 10, point_y = 10\<rparr>"]
  by (simp add: first_match_hit_test_def caption_button_priority_def HitTestCaptionButton_def
      hovered_view_buttons custom_env_fields sample_button_def Rect_def)

subsection \<open>Initialisation\<close>

lemma SetImageModels_states:
  "\<exists>b'. SetImageModels [STATE_NORMAL, STATE_HOVERED, STATE_PRESSED, STATE_DISABLED] b = Inr b'"
  by (simp add: ButtonStateToNavButtonProviderState_def)

lemma CreateImageButton_returns:
  "\<exists>b. CreateImageButton e vid acc cb s = Inr (b, s\<lparr>calls := calls s @ [AddChildView vid]\<rparr>)"
proof -
  obtain b' where
    "SetImageModels [STATE_NORMAL, STATE_HOVERED, STATE_PRESSED, STATE_DISABLED]
       (new_ImageButton e) = Inr b'"
    using SetImageModels_states by blast
  then show ?thesis
    unfolding CreateImageButton_def by simp
qed

lemma InitButtons_returns:
  "\<exists>b1 b2 b3 b4.
     InitButtons e s =
       Inr (s\<lparr>minimize_button := Some b1, maximize_button := Some b2,
               restore_button := Some b3, close_button := Some b4,
               calls := calls s @
                 [AddChildView VIEW_ID_MINIMIZE_BUTTON, AddChildView VIEW_ID_MAXIMIZE_BUTTON,
                  AddChildView VIEW_ID_RESTORE_BUTTON, AddChildView VIEW_ID_CLOSE_BUTTON]\<rparr>)"
proof -
  let ?s0 = "s\<lparr>calls := calls s @ [AddChildView VIEW_ID_MINIMIZE_BUTTON]\<rparr>"
  obtain b1 where c1:
    "CreateImageButton e VIEW_ID_MINIMIZE_BUTTON IDS_ACCNAME_MINIMIZE Widget_Minimize s
       = Inr (b1, ?s0)"
    using CreateImageButton_returns by blast
  let ?s1 = "?s0\<lparr>minimize_button := Some b1\<rparr>"
  obtain b2 where c2:
    "CreateImageButton e VIEW_ID_MAXIMIZE_BUTTON IDS_ACCNAME_MAXIMIZE Widget_Maximize ?s1
       = Inr (b2, ?s1\<lparr>calls := calls ?s1 @ [AddChildView VIEW_ID_MAXIMIZE_BUTTON]\<rparr>)"
    using CreateImageButton_returns by blast
  let ?s2 = "?s1\<lparr>calls := calls ?s1 @ [AddChildView VIEW_ID_MAXIMIZE_BUTTON],
                  maximize_button := Some b2\<rparr>"
  obtain b3 where c3:
    "CreateImageButton e VIEW_ID_RESTORE_BUTTON IDS_ACCNAME_RESTORE Widget_Restore ?s2
       = Inr (b3, ?s2\<lparr>calls := calls ?s2 @ [AddChildView VIEW_ID_RESTORE_BUTTON]\<rparr>)"
    using CreateImageButton_returns by blast
  let ?s3 = "?s2\<lparr>calls := calls ?s2 @ [AddChildView VIEW_ID_RESTORE_BUTTON],
                  restore_button := Some b3\<rparr>"
  obtain b4 where c4:
    "CreateImageButton e VIEW_ID_CLOSE_BUTTON IDS_ACCNAME_CLOSE
       (Widget_CloseWithReason kCloseButtonClicked) ?s3
       = Inr (b4, ?s3\<lparr>calls := calls ?s3 @ [AddChildView VIEW_ID_CLOSE_BUTTON]\<rparr>)"
    using CreateImageButton_returns by blast
  have "InitButtons e s =
          Inr (s\<lparr>minimize_button := Some b1, maximize_button := Some b2,
                  restore_button := Some b3, close_button := Some b4,
                  calls := calls s @
                    [AddChildView VIEW_ID_MINIMIZE_BUTTON, AddChildView VIEW_ID_MAXIMIZE_BUTTON,
                     AddChildView VIEW_ID_RESTORE_BUTTON, AddChildView VIEW_ID_CLOSE_BUTTON]\<rparr>)"
    using c1 c2 c3 c4 by (simp add: InitButtons_def)
  then show ?thesis by blast
qed

lemma Init_custom:
  "ShouldCustomDrawSystemTitlebar e \<Longrightarrow>
   Init e s = Inr (s\<lparr>calls := calls s @ [FramelessView_Init]\<rparr>)"
  by (simp add: Init_def Let_def)

lemma Init_system:
  assumes "\<not> ShouldCustomDrawSystemTitlebar e"
  shows "\<exists>b1 b2 b3 b4.
     Init e s =
       Inr (s\<lparr>minimize_button := Some b1, maximize_button := Some b2,
               restore_button := Some b3, close_button := Some b4,
               caption_button_placeholder_container :=
                 Some (new_CaptionButtonPlaceholderContainer e),
               calls := calls s @
                 [FramelessView_Init, AddChildView_placeholder,
                  RegisterPaintAsActiveChangedCallback,
                  AddChildView VIEW_ID_MINIMIZE_BUTTON, AddChildView VIEW_ID_MAXIMIZE_BUTTON,
                  AddChildView VIEW_ID_RESTORE_BUTTON, AddChildView VIEW_ID_CLOSE_BUTTON]\<rparr>)"
proof -
  let ?t = "s\<lparr>calls := calls s @ [FramelessView_Init],
               caption_button_placeholder_container :=
                 Some (new_CaptionButtonPlaceholderContainer e),
               calls := (calls s @ [FramelessView_Init]) @ [AddChildView_placeholder],
               calls := ((calls s @ [FramelessView_Init]) @ [AddChildView_placeholder])
                        @ [RegisterPaintAsActiveChangedCallback]\<rparr>"
  have i: "Init e s = InitButtons e ?t"
    using assms by (simp add: Init_def Let_def)
  obtain b1 b2 b3 b4 where
    "InitButtons e ?t =
       Inr (?t\<lparr>minimize_button := Some b1, maximize_button := Some b2,
               restore_button := Some b3, close_button := Some b4,
               calls := calls ?t @
                 [AddChildView VIEW_ID_MINIMIZE_BUTTON, AddChildView VIEW_ID_MAXIMIZE_BUTTON,
                  AddChildView VIEW_ID_RESTORE_BUTTON, AddChildView VIEW_ID_CLOSE_BUTTON]\<rparr>)"
    using InitButtons_returns [of e ?t] by blast
  with i have "Init e s =
       Inr (s\<lparr>minimize_button := Some b1, maximize_button := Some b2,
               restore_button := Some b3, close_button := Some b4,
               caption_button_placeholder_container :=
                 Some (new_CaptionButtonPlaceholderContainer e),
               calls := calls s @
                 [FramelessView_Init, AddChildView_placeholder,
                  RegisterPaintAsActiveChangedCallback,
                  AddChildView VIEW_ID_MINIMIZE_BUTTON, AddChildView VIEW_ID_MAXIMIZE_BUTTON,
                  AddChildView VIEW_ID_RESTORE_BUTTON, AddChildView VIEW_ID_CLOSE_BUTTON]\<rparr>)"
    by simp
  then show ?thesis by blast
qed

text \<open>
  C2. What \<open>Init\<close> does on the freshly constructed view: it always returns; it leaves
  all four button pointers null when the title bar is custom-drawn, and creates the four
  buttons, once each, when the system draws the title bar.
\<close>

theorem Init_buttons:
  "\<exists>s. Init e OpaqueFrameView = Inr s
      \<and> (minimize_button s \<noteq> None) = (\<not> ShouldCustomDrawSystemTitlebar e)
      \<and> (maximize_button s \<noteq> None) = (\<not> ShouldCustomDrawSystemTitlebar e)
      \<and> (restore_button s \<noteq> None) = (\<not> ShouldCustomDrawSystemTitlebar e)
      \<and> (close_button s \<noteq> None) = (\<not> ShouldCustomDrawSystemTitlebar e)
      \<and> calls s =
          (if ShouldCustomDrawSystemTitlebar e then [FramelessView_Init]
           else [FramelessView_Init, AddChildView_placeholder,
                 RegisterPaintAsActiveChangedCallback,
                 AddChildView VIEW_ID_MINIMIZE_BUTTON, AddChildView VIEW_ID_MAXIMIZE_BUTTON,
                 AddChildView VIEW_ID_RESTORE_BUTTON, AddChildView VIEW_ID_CLOSE_BUTTON])"
proof (cases "ShouldCustomDrawSystemTitlebar e")
  case True
  then show ?thesis
    by (simp add: Init_custom OpaqueFrameView_def)
next
  case False
  from Init_system [OF False, of OpaqueFrameView] obtain b1 b2 b3 b4 where
    "Init e OpaqueFrameView =
       Inr (OpaqueFrameView\<lparr>minimize_button := Some b1, maximize_button := Some b2,
               restore_button := Some b3, close_button := Some b4,
               caption_button_placeholder_container :=
                 Some (new_CaptionButtonPlaceholderContainer e),
               calls := calls OpaqueFrameView @
                 [FramelessView_Init, AddChildView_placeholder,
                  RegisterPaintAsActiveChangedCallback,
                  AddChildView VIEW_ID_MINIMIZE_BUTTON, AddChildView VIEW_ID_MAXIMIZE_BUTTON,
                  AddChildView VIEW_ID_RESTORE_BUTTON, AddChildView VIEW_ID_CLOSE_BUTTON]\<rparr>)"
    by blast
  with False show ?thesis
    by (simp add: OpaqueFrameView_def)
qed

text \<open>
  C3. After \<open>Init\<close> on the freshly constructed view with a custom-drawn title bar, the
  four button pointers and the placeholder pointer are null, and \<open>NonClientHitTest\<close>
  returns the base class's result at every point, in whatever environment it is asked.
\<close>

theorem NonClientHitTest_after_custom_Init:
  assumes "ShouldCustomDrawSystemTitlebar e"
  shows "\<exists>s. Init e OpaqueFrameView = Inr s
           \<and> minimize_button s = None \<and> maximize_button s = None
           \<and> restore_button s = None \<and> close_button s = None
           \<and> caption_button_placeholder_container s = None
           \<and> (\<forall>e' pt. NonClientHitTest e' s pt = FramelessView_NonClientHitTest e' pt)"
  using assms
  by (simp add: Init_custom OpaqueFrameView_def NonClientHitTest_def HitTestCaptionButton_def)

theorem NonClientHitTest_after_custom_Init_witness:
  "ShouldCustomDrawSystemTitlebar custom_env
   \<and> (\<exists>s. Init custom_env OpaqueFrameView = Inr s
          \<and> close_button s = None
          \<and> NonClientHitTest custom_env s \<lparr>point_x = 750, point_y = 10\<rparr> = 1)"
  using NonClientHitTest_after_custom_Init [of custom_env]
  by (auto simp: custom_env_fields)

subsection \<open>An absent placeholder container\<close>

text \<open>
  C1. What the operations that use the placeholder container do when it is absent.
  \<open>UpdateCaptionButtonPlaceholderContainerBackground\<close> checks the pointer and leaves
  the view as it is. \<open>Layout\<close> does not check it: with a custom-drawn title bar it
  dereferences the null pointer, and only with a system-drawn one does it pass straight
  to the base layout. \<open>LayoutWindowControlsOverlay\<close> dereferences it in every
  environment. The view that \<open>Init\<close> leaves with a custom-drawn title bar is such a
  state.
\<close>

theorem absent_placeholder_dereferenced:
  "Layout e (s\<lparr>caption_button_placeholder_container := None\<rparr>) =
     (if ShouldCustomDrawSystemTitlebar e then Inl NullDereference
      else Inr (s\<lparr>caption_button_placeholder_container := None,
                   calls := calls s @ [LayoutSuperclass_FramelessView]\<rparr>))
   \<and> LayoutWindowControlsOverlay e (s\<lparr>caption_button_placeholder_container := None\<rparr>)
       = Inl NullDereference
   \<and> UpdateCaptionButtonPlaceholderContainerBackground e
         (s\<lparr>caption_button_placeholder_container := None\<rparr>)
       = s\<lparr>caption_button_placeholder_container := None\<rparr>
   \<and> (\<exists>t. Init custom_env OpaqueFrameView = Inr t
          \<and> caption_button_placeholder_container t = None
          \<and> Layout custom_env t = Inl NullDereference
          \<and> LayoutWindowControlsOverlay custom_env t = Inl NullDereference)"
  by (simp add: Layout_def LayoutWindowControlsOverlay_def Let_def
      UpdateCaptionButtonPlaceholderContainerBackground_def
      Init_custom custom_env_fields OpaqueFrameView_def)

subsection \<open>The layout cursor\<close>

lemma CreateImageButton_cursor:
  "CreateImageButton e vid acc cb s = Inr (b, s') \<Longrightarrow> layout_cursor s' = layout_cursor s"
  using CreateImageButton_returns [of e vid acc cb s]
  by (auto simp: layout_cursor_def)

lemma InitButtons_cursor:
  "InitButtons e s = Inr s' \<Longrightarrow> layout_cursor s' = layout_cursor s"
  using InitButtons_returns [of e s]
  by (auto simp: layout_cursor_def)

lemma Init_cursor:
  "Init e s = Inr s' \<Longrightarrow> layout_cursor s' = layout_cursor s"
proof (cases "ShouldCustomDrawSystemTitlebar e")
  case True
  assume "Init e s = Inr s'"
  with True show ?thesis
    by (auto simp: Init_custom layout_cursor_def)
next
  case False
  assume "Init e s = Inr s'"
  with Init_system [OF False, of s] show ?thesis
    by (auto simp: layout_cursor_def)
qed

lemma OnWindowButtonOrderingChange_cursor:
  "layout_cursor (OnWindowButtonOrderingChange e s) = layout_cursor s"
  by (simp add: OnWindowButtonOrderingChange_def layout_cursor_def)

lemma ResetWindowControls_cursor:
  "ResetWindowControls s = Inr s' \<Longrightarrow> layout_cursor s' = layout_cursor s"
  by (auto simp: ResetWindowControls_def Let_def layout_cursor_def split: option.splits)

lemma Layout_cursor:
  "Layout e s = Inr s' \<Longrightarrow> layout_cursor s' = layout_cursor s"
  by (auto simp: Layout_def Let_def layout_cursor_def split: option.splits if_splits)

lemma LayoutWindowControlsOverlay_cursor:
  "LayoutWindowControlsOverlay e s = Inr s' \<Longrightarrow> layout_cursor s' = layout_cursor s"
  by (auto simp: LayoutWindowControlsOverlay_def Let_def layout_cursor_def
      split: option.splits if_splits)

lemma UpdateBackground_cursor:
  "layout_cursor (UpdateCaptionButtonPlaceholderContainerBackground e s) = layout_cursor s"
  by (simp add: UpdateCaptionButtonPlaceholderContainerBackground_def Let_def
      layout_cursor_def split: option.splits)

lemma PaintAsActiveChanged_cursor:
  "layout_cursor (PaintAsActiveChanged e s) = layout_cursor s"
  using UpdateBackground_cursor [of e s]
  by (simp add: PaintAsActiveChanged_def Let_def layout_cursor_def)

lemma OnThemeChanged_cursor:
  "layout_cursor (OnThemeChanged e s) = layout_cursor s"
  using UpdateBackground_cursor [of e s]
  by (simp add: OnThemeChanged_def Let_def layout_cursor_def)

lemma reachable_cursor:
  "reachable s \<Longrightarrow> layout_cursor s = (False, False, 0, 0, 0)"
proof (induction rule: reachable.induct)
  case r_ctor
  show ?case by (simp add: layout_cursor_def OpaqueFrameView_def)
next
  case (r_Init s e s')
  then show ?case using Init_cursor by metis
next
  case (r_InitButtons s e s')
  then show ?case using InitButtons_cursor by metis
next
  case (r_Ordering s e)
  then show ?case by (simp add: OnWindowButtonOrderingChange_cursor)
next
  case (r_Reset s s')
  then show ?case using ResetWindowControls_cursor by metis
next
  case (r_Layout s e s')
  then show ?case using Layout_cursor by metis
next
  case (r_Overlay s e s')
  then show ?case using LayoutWindowControlsOverlay_cursor by metis
next
  case (r_Background s e)
  then show ?case by (simp add: UpdateBackground_cursor)
next
  case (r_Paint s e)
  then show ?case by (simp add: PaintAsActiveChanged_cursor)
next
  case (r_Theme s e)
  then show ?case by (simp add: OnThemeChanged_cursor)
next
  case (r_toolkit s f1 f2 f3 f4 g)
  then show ?case by (simp add: layout_cursor_def)
qed

text \<open>
  C8. In every view that a run can produce the layout-cursor members still hold their
  initial values (\<open>reachable_cursor\<close>): no member function writes them. The layout pass
  with a custom-drawn title bar, though, does not get as far as positioning the
  placeholder container at x = 0: \<open>Init\<close> in a custom-drawn environment returns with
  the container pointer null, and \<open>Layout\<close> in that same environment stops at the
  pointer.
\<close>

theorem Layout_after_custom_Init_stops:
  "Init (e\<lparr>ShouldCustomDrawSystemTitlebar := True\<rparr>) OpaqueFrameView
     = Inr (OpaqueFrameView\<lparr>calls := [FramelessView_Init]\<rparr>)
   \<and> reachable (OpaqueFrameView\<lparr>calls := [FramelessView_Init]\<rparr>)
   \<and> layout_cursor (OpaqueFrameView\<lparr>calls := [FramelessView_Init]\<rparr>)
       = (False, False, 0, 0, 0)
   \<and> caption_button_placeholder_container (OpaqueFrameView\<lparr>calls := [FramelessView_Init]\<rparr>)
       = None
   \<and> Layout (e\<lparr>ShouldCustomDrawSystemTitlebar := True\<rparr>)
         (OpaqueFrameView\<lparr>calls := [FramelessView_Init]\<rparr>)
       = Inl NullDereference"
proof -
  let ?e = "e\<lparr>ShouldCustomDrawSystemTitlebar := True\<rparr>"
  let ?s = "OpaqueFrameView\<lparr>calls := [FramelessView_Init]\<rparr>"
  have i: "Init ?e OpaqueFrameView = Inr ?s"
    by (simp add: Init_custom OpaqueFrameView_def)
  have r: "reachable ?s"
    using r_Init [OF r_ctor i] .
  have c: "layout_cursor ?s = (False, False, 0, 0, 0)"
    using reachable_cursor [OF r] .
  have n: "caption_button_placeholder_container ?s = None"
    by (simp add: OpaqueFrameView_def)
  have l: "Layout ?e ?s = Inl NullDereference"
    by (simp add: Layout_def Let_def n)
  from i r c n l show ?thesis by blast
qed

end
